theory Spec2Isabelle
  imports Main
begin

section \<open>Go values used by kite.go\<close>

text \<open>
  A Go call either returns or panics. A panic is the value \<open>Panic\<close> with its message; an
  \<open>error\<close> return value is the left summand of a sum, carrying the error's message.
\<close>

datatype 'a outcome = Panic string | Return 'a

fun panicked :: "'a outcome \<Rightarrow> bool" where
  "panicked (Panic m) = True"
| "panicked (Return x) = False"

type_synonym error = string

text \<open>
  A value of type \<open>interface{}\<close> as the JSON decoder of jwt-go leaves it in
  \<open>token.Claims\<close>. Only the dynamic type matters to kite.go (the type assertion
  \<open>.(string)\<close>); a number keeps an integer payload.
\<close>

datatype iface =
    Nil
  | String string
  | Number int
  | Bool bool
  | Array "iface list"
  | Object "(string \<times> iface) list"

text \<open>\<open>v, ok := x.(string)\<close>: \<open>ok\<close> is true exactly when the dynamic type is string.\<close>

fun assert_string :: "iface \<Rightarrow> string option" where
  "assert_string (String s) = Some s"
| "assert_string _ = None"

text \<open>
  Indexing a Go map with a missing key gives the zero value of the element type; for
  \<open>map[string]interface{}\<close> that is the nil interface.
\<close>

definition index_iface :: "(string \<rightharpoonup> iface) \<Rightarrow> string \<Rightarrow> iface" where
  "index_iface m key = (case m key of None \<Rightarrow> Nil | Some v \<Rightarrow> v)"

text \<open>\<open>jwt.Token\<close> of jwt-go, as the key function receives it (parsed, not yet verified).\<close>

record jwt_Token =
  Raw :: string
  Header :: "string \<rightharpoonup> iface"
  Claims :: "string \<rightharpoonup> iface"
  Signature :: string
  Valid :: bool

text \<open>The fields of \<open>config.Config\<close> that kite.go reads.\<close>

record Config =
  Username :: string
  Environment :: string
  Region :: string
  KontrolUser :: string
  KontrolKey :: string

text \<open>\<open>protocol.Kite\<close>, the descriptor that \<open>Kite()\<close> builds.\<close>

record protocol_Kite =
  p_Username :: string
  p_Environment :: string
  p_Name :: string
  p_Version :: string
  p_Region :: string
  p_Hostname :: string
  p_ID :: string

section \<open>Logging and the observable world\<close>

datatype Level = CRITICAL | ERROR | WARNING | NOTICE | INFO | DEBUG

record Logger =
  logger_name :: string
  level :: Level

text \<open>
  A call of \<open>Log.Info(format, args...)\<close> is kept as it was made: the logger it was made on,
  the format string and the arguments. Rendering and the sink belong to the logging package.
\<close>

datatype log_arg = ArgString string | ArgKite protocol_Kite

record log_call =
  on_logger :: Logger
  format :: string
  args :: "log_arg list"

text \<open>
  The world is what hooks and the read loop act on. It holds the log calls made so far; the
  record is extensible, so the rest of the process state is the extension \<open>'u\<close>.
\<close>

record world =
  logged :: "log_call list"

definition Info :: "Logger \<Rightarrow> string \<Rightarrow> log_arg list \<Rightarrow> 'u world_scheme \<Rightarrow> 'u world_scheme" where
  "Info lg fmt as w = w\<lparr>logged := logged w @ [\<lparr>on_logger = lg, format = fmt, args = as\<rparr>]\<rparr>"

text \<open>
  \<open>newLogger\<close>: the second argument is the value of
  \<open>strings.ToUpper(os.Getenv("KITE_LOG_LEVEL"))\<close>, read from the process environment.
\<close>

definition newLogger :: "string \<Rightarrow> string \<Rightarrow> Logger" where
  "newLogger nm upper_env =
     \<lparr>logger_name = nm,
      level = (if upper_env = ''DEBUG'' then DEBUG
               else if upper_env = ''NOTICE'' then NOTICE
               else if upper_env = ''WARNING'' then WARNING
               else if upper_env = ''ERROR'' then ERROR
               else if upper_env = ''CRITICAL'' then CRITICAL
               else INFO)\<rparr>"

section \<open>Connections, clients and hooks\<close>

text \<open>
  \<open>websocket.Conn\<close>: kite.go reads \<open>conn.Request().RemoteAddr\<close> only.
  \<open>Client\<close> is declared in another file; kite.go sets its \<open>conn\<close> and reads its
  \<open>Kite\<close> field.
\<close>

record Conn =
  RemoteAddr :: string

record Client =
  conn :: "Conn option"
  client_Kite :: protocol_Kite

text \<open>
  A hook is a Go closure: called with its argument it acts on the world and returns, or
  panics. (Hooks return no value, so a panic is the only way a hook can fail.)
\<close>

type_synonym ('c, 'u) hook = "'c \<Rightarrow> 'u world_scheme \<Rightarrow> 'u world_scheme outcome"

text \<open>
  The values stored in \<open>Authenticators\<close>. The two method values that \<open>New\<close> installs are
  bound methods whose bodies are in another file; they are kept by name. \<open>AuthFunc\<close> is
  any function a caller stores.
\<close>

datatype 'f authenticator = AuthenticateFromToken | AuthenticateFromKiteKey | AuthFunc 'f

text \<open>\<open>websocket.Server\<close>: its \<open>Handler\<close> field is unset or the method value \<open>k.handleWS\<close>.\<close>

datatype ws_handler = NoHandler | HandleWS

record websocket_Server =
  Handler :: ws_handler

section \<open>The Kite struct\<close>

text \<open>
  The struct, field by field. \<open>Config\<close> is a pointer that \<open>New\<close> sets to the result of
  \<open>config.New()\<close>; the record holds the configuration it points to. The three maps are
  made in \<open>New\<close>. The field \<open>id\<close> is written \<open>id'\<close>.
\<close>

record ('h, 'f, 'u) Kite =
  Config :: Config
  Log :: Logger
  Authenticators :: "string \<rightharpoonup> 'f authenticator"
  trustedKontrolKeys :: "string \<rightharpoonup> string"
  handlers :: "string \<rightharpoonup> 'h"
  server :: websocket_Server
  onConnectHandlers :: "(Conn, 'u) hook list"
  onFirstRequestHandlers :: "(Client, 'u) hook list"
  onDisconnectHandlers :: "(Client, 'u) hook list"
  name :: string
  version :: string
  id' :: string

section \<open>Trusting a Kontrol key\<close>

text \<open>
  \<open>TrustKontrolKey\<close> assigns one map entry. The map is the one \<open>New\<close> made, so the
  assignment cannot panic.
\<close>

definition TrustKontrolKey ::
  "string \<Rightarrow> string \<Rightarrow> ('h, 'f, 'u) Kite \<Rightarrow> ('h, 'f, 'u) Kite" where
  "TrustKontrolKey issuer key k =
     k\<lparr>trustedKontrolKeys := (trustedKontrolKeys k)(issuer \<mapsto> key)\<rparr>"

text \<open>A sequence of \<open>TrustKontrolKey\<close> calls, first call first.\<close>

fun trust_all :: "(string \<times> string) list \<Rightarrow> ('h, 'f, 'u) Kite \<Rightarrow> ('h, 'f, 'u) Kite" where
  "trust_all [] k = k"
| "trust_all ((issuer, key) # calls) k = trust_all calls (TrustKontrolKey issuer key k)"

text \<open>The key of the most recent call for an issuer, if there was one.\<close>

fun most_recent :: "(string \<times> string) list \<Rightarrow> string \<Rightarrow> string option" where
  "most_recent [] i = None"
| "most_recent ((issuer, key) # calls) i =
     (case most_recent calls i of
        Some key' \<Rightarrow> Some key'
      | None \<Rightarrow> if issuer = i then Some key else None)"

section \<open>The key function of token verification\<close>

text \<open>
  \<open>RSAKey\<close> returns \<open>([]byte, error)\<close> or panics. The token is the parsed token jwt-go
  passes to its key function.
\<close>

definition RSAKey :: "('h, 'f, 'u) Kite \<Rightarrow> jwt_Token \<Rightarrow> (error + string) outcome" where
  "RSAKey k token =
     (if KontrolKey (Config k) = '''' then Panic ''kontrol key is not set in config''
      else case assert_string (index_iface (Claims token) ''iss'') of
             None \<Rightarrow> Return (Inl ''token does not contain a valid issuer claim'')
           | Some issuer \<Rightarrow>
               if issuer \<noteq> KontrolUser (Config k)
               then Return (Inl (''issuer is not trusted: '' @ issuer))
               else Return (Inr (KontrolKey (Config k))))"

section \<open>Lifecycle hooks\<close>

definition OnConnect :: "(Conn, 'u) hook \<Rightarrow> ('h, 'f, 'u) Kite \<Rightarrow> ('h, 'f, 'u) Kite" where
  "OnConnect handler k = k\<lparr>onConnectHandlers := onConnectHandlers k @ [handler]\<rparr>"

definition OnFirstRequest :: "(Client, 'u) hook \<Rightarrow> ('h, 'f, 'u) Kite \<Rightarrow> ('h, 'f, 'u) Kite" where
  "OnFirstRequest handler k = k\<lparr>onFirstRequestHandlers := onFirstRequestHandlers k @ [handler]\<rparr>"

definition OnDisconnect :: "(Client, 'u) hook \<Rightarrow> ('h, 'f, 'u) Kite \<Rightarrow> ('h, 'f, 'u) Kite" where
  "OnDisconnect handler k = k\<lparr>onDisconnectHandlers := onDisconnectHandlers k @ [handler]\<rparr>"

text \<open>
  To state in which order things happen, every run carries a history beside the world: a
  list of events, oldest first. The history is not program state and no hook can read or
  change it. \<open>HookCalled e i\<close> is recorded when the hook at index \<open>i\<close> of the list of event
  \<open>e\<close> is called.
\<close>

datatype lifecycle = onConnect | onFirstRequest | onDisconnect

datatype event =
    HookCalled lifecycle nat
  | ReadLoopCalled
  | ReadLoopReturned
  | ClientHandlersCalled
  | ConnClosed

text \<open>
  \<open>for _, handler := range hs { handler(c) }\<close>, from index \<open>i\<close> on. Go evaluates the
  range expression once, so the list is the one the Kite held when the loop began. There is
  no \<open>recover\<close>: a panic of a hook leaves the loop and propagates.
\<close>

fun range_call ::
  "lifecycle \<Rightarrow> nat \<Rightarrow> ('c, 'u) hook list \<Rightarrow> 'c \<Rightarrow> event list \<times> 'u world_scheme
     \<Rightarrow> event list \<times> 'u world_scheme outcome" where
  "range_call e i [] c (tr, w) = (tr, Return w)"
| "range_call e i (handler # hs) c (tr, w) =
     (case handler c w of
        Panic m \<Rightarrow> (tr @ [HookCalled e i], Panic m)
      | Return w' \<Rightarrow> range_call e (Suc i) hs c (tr @ [HookCalled e i], w'))"

definition callOnConnectHandlers ::
  "('h, 'f, 'u) Kite \<Rightarrow> Conn \<Rightarrow> event list \<times> 'u world_scheme
     \<Rightarrow> event list \<times> 'u world_scheme outcome" where
  "callOnConnectHandlers k c s = range_call onConnect 0 (onConnectHandlers k) c s"

definition callOnFirstRequestHandlers ::
  "('h, 'f, 'u) Kite \<Rightarrow> Client \<Rightarrow> event list \<times> 'u world_scheme
     \<Rightarrow> event list \<times> 'u world_scheme outcome" where
  "callOnFirstRequestHandlers k c s = range_call onFirstRequest 0 (onFirstRequestHandlers k) c s"

definition callOnDisconnectHandlers ::
  "('h, 'f, 'u) Kite \<Rightarrow> Client \<Rightarrow> event list \<times> 'u world_scheme
     \<Rightarrow> event list \<times> 'u world_scheme outcome" where
  "callOnDisconnectHandlers k c s = range_call onDisconnect 0 (onDisconnectHandlers k) c s"

section \<open>What kite.go takes from outside\<close>

text \<open>
  The process: the results of the calls \<open>os.Hostname()\<close>, \<open>os.Getenv\<close> (upper-cased),
  \<open>uuid.NewV4()\<close> (the id already as its string) and \<open>config.New()\<close>. An error is the left
  summand.
\<close>

record 'h process =
  os_Hostname :: "error + string"
  upper_KITE_LOG_LEVEL :: string
  uuid_NewV4 :: "error + string"
  config_New :: Config
  default_handlers :: "string \<rightharpoonup> 'h"

text \<open>
  The methods of \<open>Client\<close> that kite.go calls; their bodies are in another file, so they
  are parameters: \<open>k.NewClient(nil)\<close>, \<open>c.readLoop()\<close> (it may change the client, for
  instance its \<open>Kite\<close> field), \<open>c.callOnConnectHandlers()\<close> and \<open>c.RemoteAddr()\<close>.
\<close>

record 'u client_code =
  NewClient :: Client
  readLoop :: "Client \<Rightarrow> 'u world_scheme \<Rightarrow> (Client \<times> 'u world_scheme) outcome"
  client_callOnConnectHandlers :: "Client \<Rightarrow> 'u world_scheme \<Rightarrow> 'u world_scheme outcome"
  Client_RemoteAddr :: "Client \<Rightarrow> string"

section \<open>Process start and construction\<close>

text \<open>\<open>init\<close> sets the package variable \<open>hostname\<close> or panics.\<close>

definition init :: "'h process \<Rightarrow> string outcome" where
  "init p =
     (case os_Hostname p of
        Inl err \<Rightarrow> Panic (''kite: cannot get hostname: '' @ err)
      | Inr h \<Rightarrow> Return h)"

text \<open>\<open>strings.Split(s, sep)\<close> for a separator of one byte.\<close>

fun Split :: "string \<Rightarrow> char \<Rightarrow> string list" where
  "Split [] sep = [[]]"
| "Split (c # cs) sep =
     (if c = sep then [] # Split cs sep
      else case Split cs sep of
             [] \<Rightarrow> [[c]]
           | x # xs \<Rightarrow> (c # x) # xs)"

text \<open>
  The three closures \<open>New\<close> registers. Each calls \<open>k.Log.Info\<close>, reading \<open>k.Log\<close>
  when it runs. No call of kite.go assigns \<open>k.Log\<close> after \<open>New\<close> has set it, so in every
  state these calls reach the closure logs on the logger made in \<open>New\<close>; the model gives
  the closure that logger.
\<close>

definition log_connect :: "Logger \<Rightarrow> (Conn, 'u) hook" where
  "log_connect lg c w = Return (Info lg ''New connection from: %s'' [ArgString (RemoteAddr c)] w)"

definition log_first_request :: "'u client_code \<Rightarrow> Logger \<Rightarrow> (Client, 'u) hook" where
  "log_first_request cc lg c w =
     Return (Info lg ''Connection %q is identified as %q''
               [ArgString (Client_RemoteAddr cc c), ArgKite (client_Kite c)] w)"

definition log_disconnect :: "Logger \<Rightarrow> (Client, 'u) hook" where
  "log_disconnect lg c w =
     Return (Info lg ''Client has disconnected: %q'' [ArgKite (client_Kite c)] w)"

text \<open>
  Modelled from the spec: \<open>addDefaultHandlers\<close> is defined in another file. The spec says
  of the Handler Set that "a fixed set of default/reserved methods (e.g., identity
  introspection) must be present at construction": the call adds that fixed set to
  \<open>handlers\<close> and touches nothing else.
\<close>

definition addDefaultHandlers :: "'h process \<Rightarrow> ('h, 'f, 'u) Kite \<Rightarrow> ('h, 'f, 'u) Kite" where
  "addDefaultHandlers p k = k\<lparr>handlers := handlers k ++ default_handlers p\<rparr>"

definition New ::
  "'h process \<Rightarrow> 'u client_code \<Rightarrow> string \<Rightarrow> string \<Rightarrow> ('h, 'f, 'u) Kite outcome" where
  "New p cc nm ver =
     (if nm = '''' then Panic ''kite: name cannot be empty''
      else if length (Split ver CHR ''.'') \<noteq> 3
      then Panic ''kite: version must be 3-digits semantic version''
      else case uuid_NewV4 p of
             Inl err \<Rightarrow> Panic (''kite: cannot generate unique ID: '' @ err)
           | Inr kiteID \<Rightarrow>
               (let k0 = \<lparr>Config = config_New p,
                          Log = newLogger nm (upper_KITE_LOG_LEVEL p),
                          Authenticators = Map.empty,
                          trustedKontrolKeys = Map.empty,
                          handlers = Map.empty,
                          server = \<lparr>Handler = NoHandler\<rparr>,
                          onConnectHandlers = [],
                          onFirstRequestHandlers = [],
                          onDisconnectHandlers = [],
                          name = nm,
                          version = ver,
                          id' = kiteID\<rparr>;
                    k1 = k0\<lparr>server := (server k0)\<lparr>Handler := HandleWS\<rparr>\<rparr>;
                    k2 = OnConnect (log_connect (Log k1)) k1;
                    k3 = OnFirstRequest (log_first_request cc (Log k2)) k2;
                    k4 = OnDisconnect (log_disconnect (Log k3)) k3;
                    k5 = k4\<lparr>Authenticators := (Authenticators k4)(''token'' \<mapsto> AuthenticateFromToken)\<rparr>;
                    k6 = k5\<lparr>Authenticators := (Authenticators k5)(''kiteKey'' \<mapsto> AuthenticateFromKiteKey)\<rparr>
                in Return (addDefaultHandlers p k6)))"

text \<open>\<open>Kite()\<close>: the descriptor, from the Kite and the package variable \<open>hostname\<close>.\<close>

definition Kite :: "string \<Rightarrow> ('h, 'f, 'u) Kite \<Rightarrow> protocol_Kite" where
  "Kite hostname k =
     \<lparr>p_Username = Username (Config k),
      p_Environment = Environment (Config k),
      p_Name = name k,
      p_Version = version k,
      p_Region = Region (Config k),
      p_Hostname = hostname,
      p_ID = id' k\<rparr>"

section \<open>Serving one connection\<close>

text \<open>
  \<open>handleWS\<close>. The deferred \<open>ws.Close()\<close> runs when the function leaves, by return or by
  panic. Line 158 calls the client's connect handlers after the read loop.
\<close>

definition handleWS ::
  "('h, 'f, 'u) Kite \<Rightarrow> 'u client_code \<Rightarrow> Conn \<Rightarrow> event list \<times> 'u world_scheme
     \<Rightarrow> event list \<times> 'u world_scheme outcome" where
  "handleWS k cc ws s =
     (let c = (NewClient cc)\<lparr>conn := Some ws\<rparr> in
      case callOnConnectHandlers k ws s of
        (tr1, Panic m) \<Rightarrow> (tr1 @ [ConnClosed], Panic m)
      | (tr1, Return w1) \<Rightarrow>
          (case readLoop cc c w1 of
             Panic m \<Rightarrow> (tr1 @ [ReadLoopCalled, ConnClosed], Panic m)
           | Return (c', w2) \<Rightarrow>
               (case client_callOnConnectHandlers cc c' w2 of
                  Panic m \<Rightarrow>
                    (tr1 @ [ReadLoopCalled, ReadLoopReturned, ClientHandlersCalled, ConnClosed],
                     Panic m)
                | Return w3 \<Rightarrow>
                    (case callOnDisconnectHandlers k c'
                            (tr1 @ [ReadLoopCalled, ReadLoopReturned, ClientHandlersCalled], w3) of
                       (tr4, r) \<Rightarrow> (tr4 @ [ConnClosed], r)))))"

section \<open>Calls a program makes on a constructed Kite\<close>

datatype 'u call =
    Trust string string
  | RegisterConnect "(Conn, 'u) hook"
  | RegisterFirstRequest "(Client, 'u) hook"
  | RegisterDisconnect "(Client, 'u) hook"

fun apply_call :: "'u call \<Rightarrow> ('h, 'f, 'u) Kite \<Rightarrow> ('h, 'f, 'u) Kite" where
  "apply_call (Trust issuer key) k = TrustKontrolKey issuer key k"
| "apply_call (RegisterConnect h) k = OnConnect h k"
| "apply_call (RegisterFirstRequest h) k = OnFirstRequest h k"
| "apply_call (RegisterDisconnect h) k = OnDisconnect h k"

fun apply_calls :: "'u call list \<Rightarrow> ('h, 'f, 'u) Kite \<Rightarrow> ('h, 'f, 'u) Kite" where
  "apply_calls [] k = k"
| "apply_calls (c # cs) k = apply_calls cs (apply_call c k)"

text \<open>The hooks a sequence of calls registers for each event, in the order of the calls.\<close>

fun connect_hooks :: "'u call list \<Rightarrow> (Conn, 'u) hook list" where
  "connect_hooks [] = []"
| "connect_hooks (RegisterConnect h # cs) = h # connect_hooks cs"
| "connect_hooks (_ # cs) = connect_hooks cs"

fun first_request_hooks :: "'u call list \<Rightarrow> (Client, 'u) hook list" where
  "first_request_hooks [] = []"
| "first_request_hooks (RegisterFirstRequest h # cs) = h # first_request_hooks cs"
| "first_request_hooks (_ # cs) = first_request_hooks cs"

fun disconnect_hooks :: "'u call list \<Rightarrow> (Client, 'u) hook list" where
  "disconnect_hooks [] = []"
| "disconnect_hooks (RegisterDisconnect h # cs) = h # disconnect_hooks cs"
| "disconnect_hooks (_ # cs) = disconnect_hooks cs"

section \<open>Words of the specification\<close>

text \<open>
  One more hook called after a run: it is called at index \<open>i\<close> on the world the run left,
  and not at all when the run ended in a panic.
\<close>

fun then_call ::
  "lifecycle \<Rightarrow> nat \<Rightarrow> ('c, 'u) hook \<Rightarrow> 'c \<Rightarrow> event list \<times> 'u world_scheme outcome
     \<Rightarrow> event list \<times> 'u world_scheme outcome" where
  "then_call e i h c (tr, Panic m) = (tr, Panic m)"
| "then_call e i h c (tr, Return w) = (tr @ [HookCalled e i], h c w)"

text \<open>
  The specification's version format: exactly three dot-separated components, each a
  non-empty run of decimal digits.
\<close>

definition numeric :: "string \<Rightarrow> bool" where
  "numeric d = (d \<noteq> [] \<and> list_all (\<lambda>c. c \<in> set ''0123456789'') d)"

definition three_numeric_components :: "string \<Rightarrow> bool" where
  "three_numeric_components ver =
     (length (Split ver CHR ''.'') = 3 \<and> list_all numeric (Split ver CHR ''.''))"

text \<open>Whether an error came back: the \<open>err != nil\<close> of the source.\<close>

fun failed :: "error + 'a \<Rightarrow> bool" where
  "failed (Inl err) = True"
| "failed (Inr x) = False"

text \<open>The history of serving one connection, from an empty history.\<close>

definition served :: "('h, 'f, 'u) Kite \<Rightarrow> 'u client_code \<Rightarrow> Conn \<Rightarrow> 'u world_scheme \<Rightarrow> event list" where
  "served k cc ws w = fst (handleWS k cc ws ([], w))"

definition before_read_loop_returned :: "event list \<Rightarrow> event list" where
  "before_read_loop_returned tr = takeWhile (\<lambda>ev. ev \<noteq> ReadLoopReturned) tr"

section \<open>A concrete process and Kite\<close>

definition unset_config :: Config where
  "unset_config =
     \<lparr>Username = ''unknown'', Environment = ''unknown'', Region = ''unknown'',
      KontrolUser = '''', KontrolKey = ''''\<rparr>"

definition kontrol_config :: Config where
  "kontrol_config =
     \<lparr>Username = ''alice'', Environment = ''production'', Region = ''eu'',
      KontrolUser = ''kontrol'', KontrolKey = ''K''\<rparr>"

definition example_process :: "unit process" where
  "example_process =
     \<lparr>os_Hostname = Inr ''host1'',
      upper_KITE_LOG_LEVEL = '''',
      uuid_NewV4 = Inr ''6ba7b810-9dad-41d1-80b4-00c04fd430c8'',
      config_New = unset_config,
      default_handlers = Map.empty\<rparr>"

definition no_entropy_process :: "unit process" where
  "no_entropy_process = example_process\<lparr>uuid_NewV4 := Inl ''EOF''\<rparr>"

definition nobody :: protocol_Kite where
  "nobody =
     \<lparr>p_Username = '''', p_Environment = '''', p_Name = '''', p_Version = '''',
      p_Region = '''', p_Hostname = '''', p_ID = ''''\<rparr>"

definition example_client_code :: "unit client_code" where
  "example_client_code =
     \<lparr>NewClient = \<lparr>conn = None, client_Kite = nobody\<rparr>,
      readLoop = (\<lambda>c w. Return (c, w)),
      client_callOnConnectHandlers = (\<lambda>c w. Return w),
      Client_RemoteAddr = (\<lambda>c. case conn c of None \<Rightarrow> '''' | Some ws \<Rightarrow> RemoteAddr ws)\<rparr>"

definition info_logger :: Logger where
  "info_logger = \<lparr>logger_name = ''auth'', level = INFO\<rparr>"

text \<open>The Kite that \<open>New("auth", "1.0.0")\<close> returns in the example process.\<close>

definition example_kite :: "(unit, unit, unit) Kite" where
  "example_kite =
     \<lparr>Config = unset_config,
      Log = info_logger,
      Authenticators = [''token'' \<mapsto> AuthenticateFromToken, ''kiteKey'' \<mapsto> AuthenticateFromKiteKey],
      trustedKontrolKeys = Map.empty,
      handlers = Map.empty,
      server = \<lparr>Handler = HandleWS\<rparr>,
      onConnectHandlers = [log_connect info_logger],
      onFirstRequestHandlers = [log_first_request example_client_code info_logger],
      onDisconnectHandlers = [log_disconnect info_logger],
      name = ''auth'',
      version = ''1.0.0'',
      id' = ''6ba7b810-9dad-41d1-80b4-00c04fd430c8''\<rparr>"

definition token_of :: "string \<Rightarrow> jwt_Token" where
  "token_of issuer =
     \<lparr>Raw = ''h.c.s'', Header = [''alg'' \<mapsto> String ''RS256''],
      Claims = [''iss'' \<mapsto> String issuer], Signature = ''s'', Valid = False\<rparr>"

definition token_without_issuer :: jwt_Token where
  "token_without_issuer =
     \<lparr>Raw = ''h.c.s'', Header = [''alg'' \<mapsto> String ''RS256''],
      Claims = [''iss'' \<mapsto> Number 7], Signature = ''s'', Valid = False\<rparr>"

definition failing_hook :: "('c, unit) hook" where
  "failing_hook c w = Panic ''hook failed''"

definition noting_hook :: "string \<Rightarrow> ('c, unit) hook" where
  "noting_hook note c w = Return (Info info_logger note [] w)"

definition example_conn :: Conn where
  "example_conn = \<lparr>RemoteAddr = ''10.0.0.7:4000''\<rparr>"

definition example_client :: Client where
  "example_client = \<lparr>conn = Some example_conn, client_Kite = nobody\<rparr>"

definition quiet :: world where
  "quiet = \<lparr>logged = []\<rparr>"

section \<open>Lemmas on the model\<close>

lemma example_kite_constructed:
  "New example_process example_client_code ''auth'' ''1.0.0'' = Return example_kite"
  by (simp add: New_def example_process_def example_kite_def newLogger_def info_logger_def
      OnConnect_def OnFirstRequest_def OnDisconnect_def addDefaultHandlers_def Let_def)

lemma trust_all_lookup:
  "trustedKontrolKeys (trust_all calls k) i =
     (case most_recent calls i of Some key \<Rightarrow> Some key | None \<Rightarrow> trustedKontrolKeys k i)"
proof (induction calls arbitrary: k)
  case Nil
  show ?case by simp
next
  case (Cons c calls)
  obtain issuer key where c: "c = (issuer, key)" by (cases c)
  show ?case
    unfolding c by (simp add: Cons.IH TrustKontrolKey_def split: option.split)
qed

lemma New_Return_fields:
  assumes "New p cc nm ver = Return k"
  shows "Config k = config_New p"
    and "Log k = newLogger nm (upper_KITE_LOG_LEVEL p)"
    and "Authenticators k = [''token'' \<mapsto> AuthenticateFromToken, ''kiteKey'' \<mapsto> AuthenticateFromKiteKey]"
    and "trustedKontrolKeys k = Map.empty"
    and "handlers k = default_handlers p"
    and "server k = \<lparr>Handler = HandleWS\<rparr>"
    and "onConnectHandlers k = [log_connect (Log k)]"
    and "onFirstRequestHandlers k = [log_first_request cc (Log k)]"
    and "onDisconnectHandlers k = [log_disconnect (Log k)]"
    and "name k = nm"
    and "version k = ver"
    and "uuid_NewV4 p = Inr (id' k)"
  using assms
  by (auto simp add: New_def Let_def OnConnect_def OnFirstRequest_def OnDisconnect_def
      addDefaultHandlers_def split: if_splits sum.splits)

lemma New_panicked:
  "panicked (New p cc nm ver) \<longleftrightarrow>
     nm = '''' \<or> length (Split ver CHR ''.'') \<noteq> 3 \<or> failed (uuid_NewV4 p)"
  by (simp add: New_def Let_def split: sum.split)

lemma apply_call_fields:
  "Config (apply_call c k) = Config k"
  "Log (apply_call c k) = Log k"
  "Authenticators (apply_call c k) = Authenticators k"
  "handlers (apply_call c k) = handlers k"
  "name (apply_call c k) = name k"
  "version (apply_call c k) = version k"
  "id' (apply_call c k) = id' k"
  by (cases c; simp add: TrustKontrolKey_def OnConnect_def OnFirstRequest_def OnDisconnect_def)+

lemma apply_calls_fields:
  "Config (apply_calls cs k) = Config k"
  "Log (apply_calls cs k) = Log k"
  "Authenticators (apply_calls cs k) = Authenticators k"
  "handlers (apply_calls cs k) = handlers k"
  "name (apply_calls cs k) = name k"
  "version (apply_calls cs k) = version k"
  "id' (apply_calls cs k) = id' k"
  by (induction cs arbitrary: k) (simp_all add: apply_call_fields)

lemma apply_call_hooks:
  "onConnectHandlers (apply_call c k) = onConnectHandlers k @ connect_hooks [c]"
  "onFirstRequestHandlers (apply_call c k) = onFirstRequestHandlers k @ first_request_hooks [c]"
  "onDisconnectHandlers (apply_call c k) = onDisconnectHandlers k @ disconnect_hooks [c]"
  by (cases c; simp add: TrustKontrolKey_def OnConnect_def OnFirstRequest_def OnDisconnect_def)+

lemma hooks_Cons:
  "connect_hooks (c # cs) = connect_hooks [c] @ connect_hooks cs"
  "first_request_hooks (c # cs) = first_request_hooks [c] @ first_request_hooks cs"
  "disconnect_hooks (c # cs) = disconnect_hooks [c] @ disconnect_hooks cs"
  by (cases c; simp)+

lemma apply_calls_hooks:
  "onConnectHandlers (apply_calls cs k) = onConnectHandlers k @ connect_hooks cs"
  "onFirstRequestHandlers (apply_calls cs k) = onFirstRequestHandlers k @ first_request_hooks cs"
  "onDisconnectHandlers (apply_calls cs k) = onDisconnectHandlers k @ disconnect_hooks cs"
proof (induction cs arbitrary: k)
  case Nil
  case 1 show ?case by simp
  case 2 show ?case by simp
  case 3 show ?case by simp
next
  case (Cons c cs)
  case 1 show ?case using hooks_Cons(1)[of c cs] by (simp add: Cons.IH apply_call_hooks del: connect_hooks.simps)
  case 2 show ?case using hooks_Cons(2)[of c cs] by (simp add: Cons.IH apply_call_hooks del: first_request_hooks.simps)
  case 3 show ?case using hooks_Cons(3)[of c cs] by (simp add: Cons.IH apply_call_hooks del: disconnect_hooks.simps)
qed


section \<open>Firing\<close>

lemma range_call_append:
  "range_call e i (hs @ [h]) c s = then_call e (i + length hs) h c (range_call e i hs c s)"
proof (induction hs arbitrary: i s)
  case Nil
  obtain tr w where s: "s = (tr, w)" by (cases s)
  show ?case unfolding s by (cases "h c w") simp_all
next
  case (Cons g hs)
  obtain tr w where s: "s = (tr, w)" by (cases s)
  show ?case
  proof (cases "g c w")
    case (Panic m)
    then show ?thesis unfolding s by simp
  next
    case (Return w')
    then show ?thesis unfolding s using Cons.IH [of "Suc i" "(tr @ [HookCalled e i], w')"] by simp
  qed
qed

text \<open>The history a firing adds: the indices from \<open>i\<close> on, one after the other, with no gap.\<close>

lemma range_call_history:
  "\<exists>n \<le> length hs.
      fst (range_call e i hs c (tr, w)) = tr @ map (HookCalled e) [i ..< i + n]
      \<and> (\<not> panicked (snd (range_call e i hs c (tr, w))) \<longrightarrow> n = length hs)"
proof (induction hs arbitrary: i tr w)
  case Nil
  show ?case by simp
next
  case (Cons g hs)
  show ?case
  proof (cases "g c w")
    case (Panic m)
    have "fst (range_call e i (g # hs) c (tr, w)) = tr @ map (HookCalled e) [i ..< i + 1]"
      using Panic by simp
    moreover have "panicked (snd (range_call e i (g # hs) c (tr, w)))"
      using Panic by simp
    ultimately show ?thesis
      by (intro exI [of _ 1]) simp
  next
    case (Return w')
    obtain n where n: "n \<le> length hs"
      "fst (range_call e (Suc i) hs c (tr @ [HookCalled e i], w')) =
         (tr @ [HookCalled e i]) @ map (HookCalled e) [Suc i ..< Suc i + n]"
      "\<not> panicked (snd (range_call e (Suc i) hs c (tr @ [HookCalled e i], w'))) \<longrightarrow> n = length hs"
      using Cons.IH [of "Suc i" "tr @ [HookCalled e i]" w'] by blast
    have upt: "[i ..< Suc (i + n)] = i # [Suc i ..< Suc (i + n)]"
      by (simp add: upt_conv_Cons del: upt_Suc)
    show ?thesis
      using n Return by (intro exI [of _ "Suc n"]) (simp add: upt del: upt_Suc)
  qed
qed

section \<open>Lemmas on serving a connection\<close>

lemma init_Return: "init p = Return h \<longleftrightarrow> os_Hostname p = Inr h"
  by (simp add: init_def split: sum.split)

lemma count_HookCalled:
  "count_list (map (HookCalled e) [i ..< i + n]) (HookCalled e' x)
     = (if e' = e \<and> i \<le> x \<and> x < i + n then 1 else 0)"
  by (induction n) auto

lemma count_HookCalled_from_0:
  "count_list (map (HookCalled e) [0 ..< n]) (HookCalled e' x) = (if e' = e \<and> x < n then 1 else 0)"
  using count_HookCalled [of e 0 n e' x] by simp

lemma before_read_loop_returned_connect:
  "before_read_loop_returned (map (HookCalled onConnect) [0 ..< n] @ rest)
     = map (HookCalled onConnect) [0 ..< n] @ before_read_loop_returned rest"
  unfolding before_read_loop_returned_def by (rule takeWhile_append2) auto

lemma handleWS_history:
  fixes k :: "('h, 'f, 'u) Kite"
  shows "\<exists>n1 n2. n1 \<le> length (onConnectHandlers k) \<and> n2 \<le> length (onDisconnectHandlers k) \<and>
     ((panicked (snd (handleWS k cc ws ([], w))) \<and>
        (served k cc ws w = map (HookCalled onConnect) [0 ..< n1] @ [ConnClosed]
         \<or> served k cc ws w = map (HookCalled onConnect) [0 ..< n1] @ [ReadLoopCalled, ConnClosed]
         \<or> served k cc ws w = map (HookCalled onConnect) [0 ..< n1]
              @ [ReadLoopCalled, ReadLoopReturned, ClientHandlersCalled, ConnClosed]))
      \<or> (served k cc ws w = map (HookCalled onConnect) [0 ..< n1]
              @ [ReadLoopCalled, ReadLoopReturned, ClientHandlersCalled]
              @ map (HookCalled onDisconnect) [0 ..< n2] @ [ConnClosed]
          \<and> (\<not> panicked (snd (handleWS k cc ws ([], w))) \<longrightarrow>
                n1 = length (onConnectHandlers k) \<and> n2 = length (onDisconnectHandlers k))))"
proof -
  let ?c = "(NewClient cc)\<lparr>conn := Some ws\<rparr>"
  obtain tr1 r1 where c1: "callOnConnectHandlers k ws ([], w) = (tr1, r1)"
    by (cases "callOnConnectHandlers k ws ([], w)")
  obtain n1 where n1: "n1 \<le> length (onConnectHandlers k)"
      "tr1 = map (HookCalled onConnect) [0 ..< n1]"
      "\<not> panicked r1 \<longrightarrow> n1 = length (onConnectHandlers k)"
    using range_call_history [of "onConnectHandlers k" onConnect 0 ws "[]" w] c1
    by (auto simp add: callOnConnectHandlers_def)
  show ?thesis
  proof (cases r1)
    case (Panic m)
    then have "served k cc ws w = tr1 @ [ConnClosed]" "panicked (snd (handleWS k cc ws ([], w)))"
      using c1 by (simp_all add: served_def handleWS_def)
    with n1 show ?thesis by (intro exI [of _ n1] exI [of _ 0]) simp
  next
    case r1: (Return w1)
    show ?thesis
    proof (cases "readLoop cc ?c w1")
      case (Panic m)
      then have "served k cc ws w = tr1 @ [ReadLoopCalled, ConnClosed]"
          "panicked (snd (handleWS k cc ws ([], w)))"
        using c1 r1 by (simp_all add: served_def handleWS_def)
      with n1 show ?thesis by (intro exI [of _ n1] exI [of _ 0]) simp
    next
      case (Return cw)
      obtain c' w2 where cw: "cw = (c', w2)" by (cases cw)
      show ?thesis
      proof (cases "client_callOnConnectHandlers cc c' w2")
        case (Panic m)
        then have "served k cc ws w
              = tr1 @ [ReadLoopCalled, ReadLoopReturned, ClientHandlersCalled, ConnClosed]"
            "panicked (snd (handleWS k cc ws ([], w)))"
          using c1 r1 Return cw by (simp_all add: served_def handleWS_def)
        with n1 show ?thesis by (intro exI [of _ n1] exI [of _ 0]) simp
      next
        case w3: (Return w3)
        let ?mid = "tr1 @ [ReadLoopCalled, ReadLoopReturned, ClientHandlersCalled]"
        obtain tr4 r4 where c4: "callOnDisconnectHandlers k c' (?mid, w3) = (tr4, r4)"
          by (cases "callOnDisconnectHandlers k c' (?mid, w3)")
        obtain n2 where n2: "n2 \<le> length (onDisconnectHandlers k)"
            "tr4 = ?mid @ map (HookCalled onDisconnect) [0 ..< n2]"
            "\<not> panicked r4 \<longrightarrow> n2 = length (onDisconnectHandlers k)"
          using range_call_history [of "onDisconnectHandlers k" onDisconnect 0 c' ?mid w3] c4
          by (auto simp add: callOnDisconnectHandlers_def)
        have res: "handleWS k cc ws ([], w) = (tr4 @ [ConnClosed], r4)"
          using c1 r1 Return cw w3 c4 by (simp add: handleWS_def)
        have "served k cc ws w = tr1 @ [ReadLoopCalled, ReadLoopReturned, ClientHandlersCalled]
                @ map (HookCalled onDisconnect) [0 ..< n2] @ [ConnClosed]"
          using res n2(2) by (simp add: served_def)
        moreover have "\<not> panicked (snd (handleWS k cc ws ([], w))) \<longrightarrow>
            n1 = length (onConnectHandlers k) \<and> n2 = length (onDisconnectHandlers k)"
          using res n1(3) n2(3) r1 by simp
        ultimately show ?thesis
          using n1(1,2) n2(1) by (intro exI [of _ n1] exI [of _ n2]) simp
      qed
    qed
  qed
qed


section \<open>The trusted key set\<close>

text \<open>
  Claim C7. \<open>TrustKontrolKey\<close> is an idempotent upsert with no error path: the call is a
  total function on Kites; made twice with the same issuer and key it leaves the Kite as one
  call does; after it the issuer maps to the key given; and after any sequence of calls every
  issuer maps to the key of the most recent call made for it (and is as before when no call
  was made for it).
\<close>

theorem TrustKontrolKey_idempotent_upsert:
  "TrustKontrolKey issuer key (TrustKontrolKey issuer key k) = TrustKontrolKey issuer key k
   \<and> trustedKontrolKeys (TrustKontrolKey issuer key k) issuer = Some key
   \<and> trustedKontrolKeys (trust_all calls k) i =
       (case most_recent calls i of Some key' \<Rightarrow> Some key' | None \<Rightarrow> trustedKontrolKeys k i)"
  by (simp add: trust_all_lookup) (simp add: TrustKontrolKey_def)

theorem TrustKontrolKey_idempotent_upsert_witness:
  "TrustKontrolKey ''kontrol'' ''K'' (TrustKontrolKey ''kontrol'' ''K'' example_kite)
     = TrustKontrolKey ''kontrol'' ''K'' example_kite
   \<and> trustedKontrolKeys (TrustKontrolKey ''kontrol'' ''K'' example_kite) ''kontrol'' = Some ''K''
   \<and> trustedKontrolKeys
        (trust_all [(''kontrol'', ''K''), (''other'', ''O''), (''kontrol'', ''K2'')] example_kite) ''kontrol''
       = Some ''K2''
   \<and> trustedKontrolKeys
        (trust_all [(''kontrol'', ''K''), (''other'', ''O''), (''kontrol'', ''K2'')] example_kite) ''nobody''
       = None"
  using TrustKontrolKey_idempotent_upsert
          [of "''kontrol''" "''K''" example_kite
              "[(''kontrol'', ''K''), (''other'', ''O''), (''kontrol'', ''K2'')]" "''kontrol''"]
        TrustKontrolKey_idempotent_upsert
          [of "''kontrol''" "''K''" example_kite
              "[(''kontrol'', ''K''), (''other'', ''O''), (''kontrol'', ''K2'')]" "''nobody''"]
  by (simp add: example_kite_def)

text \<open>
  Claim C10. \<open>TrustKontrolKey(issuer, key)\<close> changes the entry of \<open>issuer\<close> in the trusted
  key set and nothing else: the entry of every other issuer and every other field of the Kite
  are as before the call.
\<close>

theorem TrustKontrolKey_frame:
  "(\<forall>j. j \<noteq> issuer \<longrightarrow>
        trustedKontrolKeys (TrustKontrolKey issuer key k) j = trustedKontrolKeys k j)
   \<and> Config (TrustKontrolKey issuer key k) = Config k
   \<and> Log (TrustKontrolKey issuer key k) = Log k
   \<and> Authenticators (TrustKontrolKey issuer key k) = Authenticators k
   \<and> handlers (TrustKontrolKey issuer key k) = handlers k
   \<and> server (TrustKontrolKey issuer key k) = server k
   \<and> onConnectHandlers (TrustKontrolKey issuer key k) = onConnectHandlers k
   \<and> onFirstRequestHandlers (TrustKontrolKey issuer key k) = onFirstRequestHandlers k
   \<and> onDisconnectHandlers (TrustKontrolKey issuer key k) = onDisconnectHandlers k
   \<and> name (TrustKontrolKey issuer key k) = name k
   \<and> version (TrustKontrolKey issuer key k) = version k
   \<and> id' (TrustKontrolKey issuer key k) = id' k"
  by (simp add: TrustKontrolKey_def)

theorem TrustKontrolKey_frame_witness:
  "''other'' \<noteq> ''kontrol''
   \<and> trustedKontrolKeys (TrustKontrolKey ''kontrol'' ''K2'' (TrustKontrolKey ''other'' ''O'' example_kite)) ''other''
       = Some ''O''
   \<and> name (TrustKontrolKey ''kontrol'' ''K2'' (TrustKontrolKey ''other'' ''O'' example_kite)) = ''auth''
   \<and> Authenticators (TrustKontrolKey ''kontrol'' ''K2'' example_kite) ''token'' = Some AuthenticateFromToken"
  using TrustKontrolKey_frame [of "''kontrol''" "''K2''" "TrustKontrolKey ''other'' ''O'' example_kite"]
        TrustKontrolKey_frame [of "''kontrol''" "''K2''" example_kite]
        TrustKontrolKey_frame [of "''other''" "''O''" example_kite]
  by (simp add: TrustKontrolKey_def example_kite_def)

section \<open>The key function\<close>


text \<open>
  Claim C1. A token whose issuer is absent from the trusted key set must be rejected by the
  key-lookup step with "issuer is not trusted", and a key must come back only as the key
  registered for the issuer. The code does otherwise. In the Kite that \<open>New\<close> returns, with
  the configuration naming the Kontrol user \<open>kontrol\<close> and its key \<open>K\<close>, the trusted key
  set has no entry for \<open>kontrol\<close>, and yet \<open>RSAKey\<close> returns a key, \<open>K\<close>, for a token
  issued by \<open>kontrol\<close>: the key of the configuration, not one registered with
  \<open>TrustKontrolKey\<close>.
\<close>

theorem RSAKey_ignores_trusted_keys:
  "New example_process example_client_code ''auth'' ''1.0.0'' = Return example_kite
   \<and> trustedKontrolKeys (example_kite\<lparr>Config := kontrol_config\<rparr>) ''kontrol'' = None
   \<and> RSAKey (example_kite\<lparr>Config := kontrol_config\<rparr>) (token_of ''kontrol'') = Return (Inr ''K'')"
  using example_kite_constructed
  by (simp add: RSAKey_def example_kite_def kontrol_config_def token_of_def index_iface_def)

text \<open>
  Against claim C2 as the specification words it. The Kite that \<open>New\<close> returns in the
  example process has no Kontrol key in its configuration; on it \<open>RSAKey\<close> panics, whatever
  the token.
\<close>

theorem RSAKey_panics_without_key:
  "New example_process example_client_code ''auth'' ''1.0.0'' = Return example_kite
   \<and> RSAKey example_kite (token_of ''kontrol'') = Panic ''kontrol key is not set in config''"
  using example_kite_constructed
  by (simp add: RSAKey_def example_kite_def unset_config_def)

text \<open>
  Claim C2, amended. For every token, \<open>RSAKey\<close> panics exactly when the configuration has
  no Kontrol key (\<open>Config.KontrolKey\<close> is empty). When the key is set it never panics, and
  a missing issuer claim or one that is not a string gives the error "token does not contain
  a valid issuer claim".
\<close>

theorem RSAKey_panics_iff_key_unset:
  "(panicked (RSAKey k token) \<longleftrightarrow> KontrolKey (Config k) = '''')
   \<and> (KontrolKey (Config k) \<noteq> '''' \<and> assert_string (index_iface (Claims token) ''iss'') = None \<longrightarrow>
        RSAKey k token = Return (Inl ''token does not contain a valid issuer claim''))"
  by (simp add: RSAKey_def split: option.split)

theorem RSAKey_panics_iff_key_unset_witness:
  "KontrolKey (Config (example_kite\<lparr>Config := kontrol_config\<rparr>)) \<noteq> ''''
   \<and> assert_string (index_iface (Claims token_without_issuer) ''iss'') = None
   \<and> \<not> panicked (RSAKey (example_kite\<lparr>Config := kontrol_config\<rparr>) token_without_issuer)
   \<and> RSAKey (example_kite\<lparr>Config := kontrol_config\<rparr>) token_without_issuer
       = Return (Inl ''token does not contain a valid issuer claim'')"
  using RSAKey_panics_iff_key_unset [of "example_kite\<lparr>Config := kontrol_config\<rparr>" token_without_issuer]
  by (simp add: kontrol_config_def token_without_issuer_def index_iface_def)

section \<open>Construction\<close>

text \<open>
  The doc comment of \<open>New\<close> asks for a version "in 3-digit semantic form" and the panic
  text for a "3-digits semantic version", but the check at line 82 counts the components
  and never looks at them: \<open>New("auth", "a.b.c")\<close> returns a Kite.
\<close>

theorem New_accepts_non_numeric_version:
  "\<not> three_numeric_components ''a.b.c''
   \<and> New example_process example_client_code ''auth'' ''a.b.c'' = Return (example_kite\<lparr>version := ''a.b.c''\<rparr>)"
  by (simp add: three_numeric_components_def numeric_def New_def example_process_def example_kite_def
      newLogger_def info_logger_def OnConnect_def OnFirstRequest_def OnDisconnect_def
      addDefaultHandlers_def Let_def)

text \<open>
  Against claim C3 as the specification words it. With a non-empty name and the version
  \<open>1.0.0\<close>, three numeric components, \<open>New\<close> still fails fatally when \<open>uuid.NewV4\<close>
  returns an error (lines 86 to 89).
\<close>

theorem New_aborts_without_instance_id:
  "''auth'' \<noteq> ''''
   \<and> three_numeric_components ''1.0.0''
   \<and> New no_entropy_process example_client_code ''auth'' ''1.0.0''
       = (Panic ''kite: cannot generate unique ID: EOF'' :: (unit, unit, unit) Kite outcome)"
  by (simp add: three_numeric_components_def numeric_def New_def no_entropy_process_def
      example_process_def)

text \<open>
  Claim C3, amended. \<open>New(name, version)\<close> fails fatally for every empty name, for every
  version that does not split at the dots into exactly three components, and whenever no
  instance id can be generated. For every non-empty name with a version of exactly three
  numeric components it returns a Kite, carrying that name, that version and the generated
  id, whenever an id can be generated. So on the versions that are three numeric components
  or do not have three components, \<open>New\<close> fails fatally if and only if the name is empty or
  the version is not three numeric components or no id can be generated. Nothing is said of
  a version of three components that are not all numeric.
\<close>

theorem New_fatal_paths:
  "(nm = '''' \<longrightarrow> panicked (New p cc nm ver :: ('h, 'f, 'u) Kite outcome))
   \<and> (length (Split ver CHR ''.'') \<noteq> 3 \<longrightarrow> panicked (New p cc nm ver :: ('h, 'f, 'u) Kite outcome))
   \<and> (failed (uuid_NewV4 p) \<longrightarrow> panicked (New p cc nm ver :: ('h, 'f, 'u) Kite outcome))
   \<and> (nm \<noteq> '''' \<and> three_numeric_components ver \<and> \<not> failed (uuid_NewV4 p) \<longrightarrow>
        (\<exists>k :: ('h, 'f, 'u) Kite. New p cc nm ver = Return k
            \<and> name k = nm \<and> version k = ver \<and> uuid_NewV4 p = Inr (id' k)))
   \<and> (three_numeric_components ver \<or> length (Split ver CHR ''.'') \<noteq> 3 \<longrightarrow>
        (panicked (New p cc nm ver :: ('h, 'f, 'u) Kite outcome) \<longleftrightarrow>
           nm = '''' \<or> \<not> three_numeric_components ver \<or> failed (uuid_NewV4 p)))"
proof -
  let ?r = "New p cc nm ver :: ('h, 'f, 'u) Kite outcome"
  have iff: "panicked ?r \<longleftrightarrow>
      nm = '''' \<or> length (Split ver CHR ''.'') \<noteq> 3 \<or> failed (uuid_NewV4 p)"
    by (rule New_panicked)
  have three: "length (Split ver CHR ''.'') = 3" if "three_numeric_components ver"
    using that by (simp add: three_numeric_components_def)
  have returns: "\<exists>k :: ('h, 'f, 'u) Kite. New p cc nm ver = Return k
      \<and> name k = nm \<and> version k = ver \<and> uuid_NewV4 p = Inr (id' k)"
    if "nm \<noteq> ''''" "three_numeric_components ver" "\<not> failed (uuid_NewV4 p)"
  proof (cases ?r)
    case (Panic m)
    then have "panicked ?r" by simp
    with iff that three show ?thesis by simp
  next
    case (Return k)
    with New_Return_fields(10,11,12) [OF Return] show ?thesis by simp
  qed
  have restricted: "panicked ?r \<longleftrightarrow>
      nm = '''' \<or> \<not> three_numeric_components ver \<or> failed (uuid_NewV4 p)"
    if "three_numeric_components ver \<or> length (Split ver CHR ''.'') \<noteq> 3"
    using that iff three by (auto simp add: three_numeric_components_def)
  from iff returns restricted show ?thesis by blast
qed

theorem New_fatal_paths_witness:
  "three_numeric_components ''1.0.0''
   \<and> \<not> failed (uuid_NewV4 example_process)
   \<and> failed (uuid_NewV4 no_entropy_process)
   \<and> length (Split ''1.0'' CHR ''.'') \<noteq> 3
   \<and> New example_process example_client_code ''auth'' ''1.0.0'' = Return example_kite
   \<and> name example_kite = ''auth'' \<and> version example_kite = ''1.0.0''
   \<and> panicked (New example_process example_client_code '''' ''1.0.0'' :: (unit, unit, unit) Kite outcome)
   \<and> panicked (New example_process example_client_code ''auth'' ''1.0'' :: (unit, unit, unit) Kite outcome)
   \<and> panicked (New no_entropy_process example_client_code ''auth'' ''1.0.0'' :: (unit, unit, unit) Kite outcome)"
proof -
  have fmt: "three_numeric_components ''1.0.0''"
    by (simp add: three_numeric_components_def numeric_def)
  have id_ok: "\<not> failed (uuid_NewV4 example_process)"
    by (simp add: example_process_def)
  have id_fails: "failed (uuid_NewV4 no_entropy_process)"
    by (simp add: no_entropy_process_def)
  have short: "length (Split ''1.0'' CHR ''.'') \<noteq> 3"
    by simp
  have "name example_kite = ''auth'' \<and> version example_kite = ''1.0.0''"
    using New_fatal_paths [where 'f = unit and 'u = unit, of "''auth''" example_process example_client_code "''1.0.0''"]
      fmt id_ok example_kite_constructed
    by simp
  moreover have "panicked (New example_process example_client_code '''' ''1.0.0'' :: (unit, unit, unit) Kite outcome)"
    using New_fatal_paths [where 'f = unit and 'u = unit, of "''''" example_process example_client_code "''1.0.0''"]
    by simp
  moreover have "panicked (New example_process example_client_code ''auth'' ''1.0'' :: (unit, unit, unit) Kite outcome)"
    using New_fatal_paths [where 'f = unit and 'u = unit, of "''auth''" example_process example_client_code "''1.0''"] short
    by simp
  moreover have "panicked (New no_entropy_process example_client_code ''auth'' ''1.0.0'' :: (unit, unit, unit) Kite outcome)"
    using New_fatal_paths [where 'f = unit and 'u = unit, of "''auth''" no_entropy_process example_client_code "''1.0.0''"] id_fails
    by simp
  ultimately show ?thesis
    using fmt id_ok id_fails short example_kite_constructed by simp
qed

section \<open>The descriptor\<close>

text \<open>
  Claim C4. Once the process has started (\<open>init\<close> resolved the hostname) and \<open>New\<close> has
  returned a Kite, \<open>Kite()\<close> gives the full descriptor at any time, before any connection
  and after any calls made on the Kite: username, environment and region are those of the
  Kite's configuration (the one \<open>config.New()\<close> gave), name and version are the strings
  passed to \<open>New\<close>, the hostname is the one resolved at process start, and the id is the
  one generated in \<open>New\<close>.
\<close>

theorem Kite_descriptor:
  assumes "init p = Return hostname" and "New p cc nm ver = Return k"
  shows "Kite hostname (apply_calls cs k) =
           \<lparr>p_Username = Username (Config (apply_calls cs k)),
            p_Environment = Environment (Config (apply_calls cs k)),
            p_Name = nm,
            p_Version = ver,
            p_Region = Region (Config (apply_calls cs k)),
            p_Hostname = hostname,
            p_ID = id' k\<rparr>
       \<and> Config (apply_calls cs k) = config_New p
       \<and> os_Hostname p = Inr hostname
       \<and> uuid_NewV4 p = Inr (id' k)"
  using assms(1) New_Return_fields(1,10,11,12) [OF assms(2)]
  by (simp add: Kite_def apply_calls_fields init_Return)

theorem Kite_descriptor_witness:
  "init example_process = Return ''host1''
   \<and> New example_process example_client_code ''auth'' ''1.0.0'' = Return example_kite
   \<and> Kite ''host1'' example_kite =
       \<lparr>p_Username = ''unknown'', p_Environment = ''unknown'', p_Name = ''auth'',
        p_Version = ''1.0.0'', p_Region = ''unknown'', p_Hostname = ''host1'',
        p_ID = ''6ba7b810-9dad-41d1-80b4-00c04fd430c8''\<rparr>
   \<and> Kite ''host1'' (apply_calls [Trust ''kontrol'' ''K'', RegisterConnect failing_hook] example_kite) =
       \<lparr>p_Username = ''unknown'', p_Environment = ''unknown'', p_Name = ''auth'',
        p_Version = ''1.0.0'', p_Region = ''unknown'', p_Hostname = ''host1'',
        p_ID = ''6ba7b810-9dad-41d1-80b4-00c04fd430c8''\<rparr>"
proof -
  have h: "init example_process = Return ''host1''"
    by (simp add: init_def example_process_def)
  show ?thesis
    using h example_kite_constructed
      Kite_descriptor [OF h example_kite_constructed, of "[]"]
      Kite_descriptor [OF h example_kite_constructed, of "[Trust ''kontrol'' ''K'', RegisterConnect failing_hook]"]
    by (simp add: example_process_def unset_config_def example_kite_def)
qed

section \<open>The authenticator registry\<close>



section \<open>Registering and firing hooks\<close>

text \<open>
  Against claim C6 as the specification words it. With a failing hook registered before
  another one, firing the connect event calls the built-in hook and the failing hook, ends
  in the panic of the failing hook, and never calls the hook registered after it.
\<close>

theorem failing_hook_stops_firing:
  "onConnectHandlers (OnConnect (noting_hook ''second'') (OnConnect failing_hook example_kite))
     = [log_connect info_logger, failing_hook, noting_hook ''second'']
   \<and> callOnConnectHandlers (OnConnect (noting_hook ''second'') (OnConnect failing_hook example_kite))
        example_conn ([], quiet)
     = ([HookCalled onConnect 0, HookCalled onConnect 1], Panic ''hook failed'')"
  by (simp add: callOnConnectHandlers_def OnConnect_def example_kite_def log_connect_def failing_hook_def)

text \<open>
  Claim C6, amended. For each of the three events, registering a hook appends it to the
  event's list, and firing the event calls the hooks synchronously in registration order
  until one panics: firing after a registration is firing the hooks registered before, then
  calling the new hook at the next index on the world they left, and not calling it when one
  of them panicked, the panic being the result of the firing. When no hook panics, the hooks
  called are all the hooks of the list, in the order of the list.
\<close>

theorem hooks_append_and_fire_in_order:
  "onConnectHandlers (OnConnect h k) = onConnectHandlers k @ [h]
   \<and> onFirstRequestHandlers (OnFirstRequest g k) = onFirstRequestHandlers k @ [g]
   \<and> onDisconnectHandlers (OnDisconnect g k) = onDisconnectHandlers k @ [g]
   \<and> callOnConnectHandlers (OnConnect h k) c s
       = then_call onConnect (length (onConnectHandlers k)) h c (callOnConnectHandlers k c s)
   \<and> callOnFirstRequestHandlers (OnFirstRequest g k) d s
       = then_call onFirstRequest (length (onFirstRequestHandlers k)) g d (callOnFirstRequestHandlers k d s)
   \<and> callOnDisconnectHandlers (OnDisconnect g k) d s
       = then_call onDisconnect (length (onDisconnectHandlers k)) g d (callOnDisconnectHandlers k d s)
   \<and> (\<not> panicked (snd (callOnConnectHandlers k c (tr, w))) \<longrightarrow>
        fst (callOnConnectHandlers k c (tr, w))
          = tr @ map (HookCalled onConnect) [0 ..< length (onConnectHandlers k)])
   \<and> (\<not> panicked (snd (callOnFirstRequestHandlers k d (tr, w))) \<longrightarrow>
        fst (callOnFirstRequestHandlers k d (tr, w))
          = tr @ map (HookCalled onFirstRequest) [0 ..< length (onFirstRequestHandlers k)])
   \<and> (\<not> panicked (snd (callOnDisconnectHandlers k d (tr, w))) \<longrightarrow>
        fst (callOnDisconnectHandlers k d (tr, w))
          = tr @ map (HookCalled onDisconnect) [0 ..< length (onDisconnectHandlers k)])"
proof -
  have 1: "\<not> panicked (snd (range_call e 0 hs x (tr, w))) \<longrightarrow>
        fst (range_call e 0 hs x (tr, w)) = tr @ map (HookCalled e) [0 ..< length hs]"
    for e hs x
    using range_call_history [of hs e 0 x tr w] by auto
  show ?thesis
    using 1 [of onConnect "onConnectHandlers k" c] 1 [of onFirstRequest "onFirstRequestHandlers k" d]
      1 [of onDisconnect "onDisconnectHandlers k" d]
    by (simp add: OnConnect_def OnFirstRequest_def OnDisconnect_def callOnConnectHandlers_def
        callOnFirstRequestHandlers_def callOnDisconnectHandlers_def range_call_append)
qed

theorem hooks_append_and_fire_in_order_witness:
  "\<not> panicked (snd (callOnDisconnectHandlers (OnDisconnect (noting_hook ''bye'') example_kite)
                      example_client ([], quiet)))
   \<and> onDisconnectHandlers (OnDisconnect (noting_hook ''bye'') example_kite)
       = [log_disconnect info_logger, noting_hook ''bye'']
   \<and> fst (callOnDisconnectHandlers (OnDisconnect (noting_hook ''bye'') example_kite)
            example_client ([], quiet))
       = [HookCalled onDisconnect 0, HookCalled onDisconnect 1]
   \<and> callOnDisconnectHandlers (OnDisconnect failing_hook (OnDisconnect failing_hook example_kite))
        example_client ([], quiet)
       = ([HookCalled onDisconnect 0, HookCalled onDisconnect 1], Panic ''hook failed'')"
proof -
  let ?k = "OnDisconnect (noting_hook ''bye'') example_kite"
  have base: "callOnDisconnectHandlers example_kite example_client ([], quiet)
      = ([HookCalled onDisconnect 0],
         Return (Info info_logger ''Client has disconnected: %q'' [ArgKite nobody] quiet))"
    by (simp add: callOnDisconnectHandlers_def example_kite_def log_disconnect_def example_client_def)
  have len: "length (onDisconnectHandlers example_kite) = 1"
    by (simp add: example_kite_def)
  have run: "callOnDisconnectHandlers ?k example_client ([], quiet)
      = ([HookCalled onDisconnect 0, HookCalled onDisconnect 1],
         Return (Info info_logger ''bye'' []
                  (Info info_logger ''Client has disconnected: %q'' [ArgKite nobody] quiet)))"
    using hooks_append_and_fire_in_order
            [where k = example_kite and g = "noting_hook ''bye''" and d = example_client and s = "([], quiet)"]
    by (simp add: base len noting_hook_def)
  have ok: "\<not> panicked (snd (callOnDisconnectHandlers ?k example_client ([], quiet)))"
    by (simp add: run)
  have hooks: "onDisconnectHandlers ?k = [log_disconnect info_logger, noting_hook ''bye'']"
    using hooks_append_and_fire_in_order [where k = example_kite and g = "noting_hook ''bye''"]
    by (simp add: example_kite_def)
  have hist: "fst (callOnDisconnectHandlers ?k example_client ([], quiet))
      = [HookCalled onDisconnect 0, HookCalled onDisconnect 1]"
    using hooks_append_and_fire_in_order [where k = ?k and d = example_client and tr = "[]" and w = quiet] ok
    by (simp add: hooks)
  have one: "callOnDisconnectHandlers (OnDisconnect failing_hook example_kite) example_client ([], quiet)
      = ([HookCalled onDisconnect 0, HookCalled onDisconnect 1], Panic ''hook failed'')"
    using hooks_append_and_fire_in_order
            [where k = example_kite and g = failing_hook and d = example_client and s = "([], quiet)"]
    by (simp add: base len failing_hook_def)
  have len2: "length (onDisconnectHandlers (OnDisconnect failing_hook example_kite)) = 2"
    by (simp add: OnDisconnect_def example_kite_def)
  have two: "callOnDisconnectHandlers (OnDisconnect failing_hook (OnDisconnect failing_hook example_kite))
        example_client ([], quiet)
      = ([HookCalled onDisconnect 0, HookCalled onDisconnect 1], Panic ''hook failed'')"
    using hooks_append_and_fire_in_order
            [where k = "OnDisconnect failing_hook example_kite" and g = failing_hook
               and d = example_client and s = "([], quiet)"]
    by (simp add: one len2)
  from ok hooks hist two show ?thesis by simp
qed

text \<open>
  Claim C9. \<open>New\<close> leaves exactly one hook on each of the three lists, the built-in
  logging closure of that event. Whatever hooks a caller registers afterwards come after it
  in the list, so firing an event first calls the built-in hook (index 0), which logs and
  returns, and then the caller's hooks, from index 1 on, in the world the built-in hook left.
\<close>

theorem New_registers_log_hooks:
  assumes "New p cc nm ver = Return k"
  shows "onConnectHandlers k = [log_connect (Log k)]
       \<and> onFirstRequestHandlers k = [log_first_request cc (Log k)]
       \<and> onDisconnectHandlers k = [log_disconnect (Log k)]
       \<and> onConnectHandlers (apply_calls cs k) = log_connect (Log k) # connect_hooks cs
       \<and> onFirstRequestHandlers (apply_calls cs k) = log_first_request cc (Log k) # first_request_hooks cs
       \<and> onDisconnectHandlers (apply_calls cs k) = log_disconnect (Log k) # disconnect_hooks cs
       \<and> callOnConnectHandlers (apply_calls cs k) c (tr, w)
           = range_call onConnect 1 (connect_hooks cs) c
               (tr @ [HookCalled onConnect 0],
                Info (Log k) ''New connection from: %s'' [ArgString (RemoteAddr c)] w)
       \<and> callOnFirstRequestHandlers (apply_calls cs k) d (tr, w)
           = range_call onFirstRequest 1 (first_request_hooks cs) d
               (tr @ [HookCalled onFirstRequest 0],
                Info (Log k) ''Connection %q is identified as %q''
                  [ArgString (Client_RemoteAddr cc d), ArgKite (client_Kite d)] w)
       \<and> callOnDisconnectHandlers (apply_calls cs k) d (tr, w)
           = range_call onDisconnect 1 (disconnect_hooks cs) d
               (tr @ [HookCalled onDisconnect 0],
                Info (Log k) ''Client has disconnected: %q'' [ArgKite (client_Kite d)] w)"
  using New_Return_fields(7,8,9) [OF assms]
  by (simp add: apply_calls_hooks callOnConnectHandlers_def callOnFirstRequestHandlers_def
      callOnDisconnectHandlers_def log_connect_def log_first_request_def log_disconnect_def)

theorem New_registers_log_hooks_witness:
  "New example_process example_client_code ''auth'' ''1.0.0'' = Return example_kite
   \<and> length (onConnectHandlers example_kite) = 1
   \<and> length (onFirstRequestHandlers example_kite) = 1
   \<and> length (onDisconnectHandlers example_kite) = 1
   \<and> callOnConnectHandlers (apply_calls [RegisterConnect (noting_hook ''mine'')] example_kite)
        example_conn ([], quiet)
       = ([HookCalled onConnect 0, HookCalled onConnect 1],
          Return \<lparr>logged =
            [\<lparr>on_logger = info_logger, format = ''New connection from: %s'',
              args = [ArgString ''10.0.0.7:4000'']\<rparr>,
             \<lparr>on_logger = info_logger, format = ''mine'', args = []\<rparr>]\<rparr>)"
  using example_kite_constructed
    New_registers_log_hooks [OF example_kite_constructed, of "[RegisterConnect (noting_hook ''mine'')]"
      example_conn "[]" quiet]
  by (simp add: example_kite_def noting_hook_def Info_def quiet_def example_conn_def)

section \<open>Disconnect hooks and the read loop\<close>

text \<open>
  Against claim C8 as the specification words it. The read loop returns, and a disconnect
  hook is never called: with a failing disconnect hook registered before another one, the
  later hook (index 2) is not called; and when the client's handlers called at line 158 panic,
  no disconnect hook is called at all.
\<close>

theorem failing_hook_leaves_disconnect_hook_uncalled:
  "onDisconnectHandlers
     (apply_calls [RegisterDisconnect failing_hook, RegisterDisconnect (noting_hook ''bye'')] example_kite)
     = [log_disconnect info_logger, failing_hook, noting_hook ''bye'']
   \<and> served (apply_calls [RegisterDisconnect failing_hook, RegisterDisconnect (noting_hook ''bye'')] example_kite)
        example_client_code example_conn quiet
     = [HookCalled onConnect 0, ReadLoopCalled, ReadLoopReturned, ClientHandlersCalled,
        HookCalled onDisconnect 0, HookCalled onDisconnect 1, ConnClosed]
   \<and> count_list
        (served (apply_calls [RegisterDisconnect failing_hook, RegisterDisconnect (noting_hook ''bye'')] example_kite)
           example_client_code example_conn quiet)
        (HookCalled onDisconnect 2) = 0
   \<and> served example_kite
        (example_client_code\<lparr>client_callOnConnectHandlers := failing_hook\<rparr>) example_conn quiet
     = [HookCalled onConnect 0, ReadLoopCalled, ReadLoopReturned, ClientHandlersCalled, ConnClosed]"
  by (simp add: served_def handleWS_def callOnConnectHandlers_def callOnDisconnectHandlers_def
      OnDisconnect_def example_kite_def example_client_code_def log_connect_def log_disconnect_def
      failing_hook_def)

text \<open>
  Claim C8, amended. In the history of serving one connection, no disconnect hook is called
  more than once and none is called before the read loop has returned. When nothing panics
  while the connection is served (connect hooks, read loop, the client's handlers called at
  line 158, disconnect hooks), the history is: the connect hooks in order, the read loop
  called and returned, the client's handlers, every disconnect hook in order, the connection
  closed; so every disconnect hook is called exactly once, after the read loop has returned.
\<close>

theorem disconnect_hooks_after_read_loop:
  "(\<forall>i. count_list (served k cc ws w) (HookCalled onDisconnect i) \<le> 1)
   \<and> (\<forall>i. HookCalled onDisconnect i \<notin> set (before_read_loop_returned (served k cc ws w)))
   \<and> (\<not> panicked (snd (handleWS k cc ws ([], w))) \<longrightarrow>
        served k cc ws w
          = map (HookCalled onConnect) [0 ..< length (onConnectHandlers k)]
            @ [ReadLoopCalled, ReadLoopReturned, ClientHandlersCalled]
            @ map (HookCalled onDisconnect) [0 ..< length (onDisconnectHandlers k)]
            @ [ConnClosed])
   \<and> (\<not> panicked (snd (handleWS k cc ws ([], w))) \<longrightarrow>
        (\<forall>i < length (onDisconnectHandlers k).
            count_list (served k cc ws w) (HookCalled onDisconnect i) = 1))"
proof -
  obtain n1 n2 where shape:
    "(panicked (snd (handleWS k cc ws ([], w))) \<and>
        (served k cc ws w = map (HookCalled onConnect) [0 ..< n1] @ [ConnClosed]
         \<or> served k cc ws w = map (HookCalled onConnect) [0 ..< n1] @ [ReadLoopCalled, ConnClosed]
         \<or> served k cc ws w = map (HookCalled onConnect) [0 ..< n1]
              @ [ReadLoopCalled, ReadLoopReturned, ClientHandlersCalled, ConnClosed]))
      \<or> (served k cc ws w = map (HookCalled onConnect) [0 ..< n1]
              @ [ReadLoopCalled, ReadLoopReturned, ClientHandlersCalled]
              @ map (HookCalled onDisconnect) [0 ..< n2] @ [ConnClosed]
          \<and> (\<not> panicked (snd (handleWS k cc ws ([], w))) \<longrightarrow>
                n1 = length (onConnectHandlers k) \<and> n2 = length (onDisconnectHandlers k)))"
    using handleWS_history [of k cc ws w] by blast
  have once: "count_list (served k cc ws w) (HookCalled onDisconnect i) \<le> 1" for i
    using shape by (auto simp add: count_HookCalled_from_0 split: if_splits)
  have after: "HookCalled onDisconnect i \<notin> set (before_read_loop_returned (served k cc ws w))" for i
    using shape
    by (elim disjE conjE)
      (auto simp add: before_read_loop_returned_connect, simp_all add: before_read_loop_returned_def)
  have full: "served k cc ws w
          = map (HookCalled onConnect) [0 ..< length (onConnectHandlers k)]
            @ [ReadLoopCalled, ReadLoopReturned, ClientHandlersCalled]
            @ map (HookCalled onDisconnect) [0 ..< length (onDisconnectHandlers k)]
            @ [ConnClosed]"
    if "\<not> panicked (snd (handleWS k cc ws ([], w)))"
    using shape that by auto
  have exactly: "count_list (served k cc ws w) (HookCalled onDisconnect i) = 1"
    if "\<not> panicked (snd (handleWS k cc ws ([], w)))" "i < length (onDisconnectHandlers k)" for i
    using that(2) by (simp add: full [OF that(1)] count_HookCalled_from_0)
  from once after full exactly show ?thesis by blast
qed

theorem disconnect_hooks_after_read_loop_witness:
  "\<not> panicked (snd (handleWS (OnDisconnect (noting_hook ''bye'') example_kite)
                      example_client_code example_conn ([], quiet)))
   \<and> (1::nat) < length (onDisconnectHandlers (OnDisconnect (noting_hook ''bye'') example_kite))
   \<and> served (OnDisconnect (noting_hook ''bye'') example_kite) example_client_code example_conn quiet
       = [HookCalled onConnect 0, ReadLoopCalled, ReadLoopReturned, ClientHandlersCalled,
          HookCalled onDisconnect 0, HookCalled onDisconnect 1, ConnClosed]
   \<and> count_list
        (served (OnDisconnect (noting_hook ''bye'') example_kite) example_client_code example_conn quiet)
        (HookCalled onDisconnect 1) = 1
   \<and> HookCalled onDisconnect 1 \<notin> set (before_read_loop_returned
        (served (OnDisconnect (noting_hook ''bye'') example_kite) example_client_code example_conn quiet))"
proof -
  let ?k = "OnDisconnect (noting_hook ''bye'') example_kite"
  have hooks: "onConnectHandlers ?k = [log_connect info_logger]"
      "onDisconnectHandlers ?k = [log_disconnect info_logger, noting_hook ''bye'']"
    by (simp_all add: OnDisconnect_def example_kite_def)
  have ok: "\<not> panicked (snd (handleWS ?k example_client_code example_conn ([], quiet)))"
    by (simp add: handleWS_def callOnConnectHandlers_def callOnDisconnectHandlers_def hooks
        example_client_code_def log_connect_def log_disconnect_def noting_hook_def)
  show ?thesis
    using ok disconnect_hooks_after_read_loop [of ?k example_client_code example_conn quiet]
    by (simp add: hooks before_read_loop_returned_def)
qed

end
